theory Spec2Isabelle
  imports Complex_Main
begin

section \<open>The attendance bot of \<^verbatim>\<open>app.py\<close>\<close>

text \<open>
  The development embeds the check-in handlers of \<^verbatim>\<open>src/app.py\<close>: the geofence test
  \<^verbatim>\<open>is_location_valid\<close>, the ledger append \<^verbatim>\<open>record_attendance\<close>, the four
  conversation callbacks \<^verbatim>\<open>start\<close>, \<^verbatim>\<open>checkin\<close>, \<^verbatim>\<open>get_location\<close>,
  \<^verbatim>\<open>cancel\<close>, and the handler table that \<^verbatim>\<open>main\<close> registers.

  A Python \<^verbatim>\<open>float\<close> is a double; every finite double is a real number, and the
  model's coordinates are of type \<^typ>\<open>real\<close>. The geofence test is embedded twice. In
  \<open>is_location_valid\<close> every operation is exact, which is what the callbacks below
  call; in \<open>is_location_valid_in\<close> the same lines run on an arithmetic given as a
  parameter, each operation returning whatever the doubles round it to.
  The three module-level containers \<^verbatim>\<open>user_data\<close>, \<^verbatim>\<open>attendance_records\<close> and
  \<^verbatim>\<open>attempt_counts\<close> are the fields of an explicit state that every handler takes and
  returns. A Python exception is a value \<open>Inl e\<close>.
\<close>

subsection \<open>Exceptions\<close>

datatype error = KeyError | ValueError

subsection \<open>The \<^verbatim>\<open>math\<close> functions used by the geofence test\<close>

text \<open>\<^verbatim>\<open>math.radians(x)\<close> is \<open>x * pi / 180\<close>.\<close>

definition radians :: "real \<Rightarrow> real" where
  "radians x = x * pi / 180"

text \<open>\<^verbatim>\<open>math.sqrt\<close> raises \<^verbatim>\<open>ValueError\<close> (math domain error) on a negative argument.\<close>

definition math_sqrt :: "real \<Rightarrow> error + real" where
  "math_sqrt x = (if x < 0 then Inl ValueError else Inr (sqrt x))"

text \<open>
  \<^verbatim>\<open>math.atan2(y, x)\<close>: the angle of the point \<open>(x, y)\<close> in \<open>(-pi, pi]\<close>, and \<open>0\<close> at
  the origin.
\<close>

definition atan2 :: "real \<Rightarrow> real \<Rightarrow> real" where
  "atan2 y x =
     (if 0 < x then arctan (y / x)
      else if x < 0 \<and> 0 \<le> y then arctan (y / x) + pi
      else if x < 0 then arctan (y / x) - pi
      else if 0 < y then pi / 2
      else if y < 0 then - (pi / 2)
      else 0)"

subsection \<open>Configuration constants\<close>

definition MAX_ATTEMPTS :: int where
  "MAX_ATTEMPTS = 3"

definition center_latitude :: real where
  "center_latitude = 19.523731621451685"

definition center_longitude :: real where
  "center_longitude = - 99.2536655776822"

definition earth_radius :: real where
  "earth_radius = 6371.0"

definition max_distance :: real where
  "max_distance = 5.0"

subsection \<open>\<^verbatim>\<open>is_location_valid\<close>\<close>

text \<open>
  Lines 130 to 144 of \<^verbatim>\<open>is_location_valid\<close>, with the second point as a parameter: the
  source fixes it to the center. The two calls of \<^verbatim>\<open>math.sqrt\<close> are evaluated left to
  right, and each may raise. Every operation is exact here; the same lines on rounded
  arithmetic are \<open>is_location_valid_in\<close> below.
\<close>

definition haversine_distance :: "real \<Rightarrow> real \<Rightarrow> real \<Rightarrow> real \<Rightarrow> error + real" where
  "haversine_distance latitude longitude latitude2 longitude2 =
     (let lat1_rad = radians latitude;
          lon1_rad = radians longitude;
          lat2_rad = radians latitude2;
          lon2_rad = radians longitude2;
          dlon = lon2_rad - lon1_rad;
          dlat = lat2_rad - lat1_rad;
          a = (sin (dlat / 2))\<^sup>2 + cos lat1_rad * cos lat2_rad * (sin (dlon / 2))\<^sup>2
      in case math_sqrt a of
           Inl e \<Rightarrow> Inl e
         | Inr root_a \<Rightarrow>
             (case math_sqrt (1 - a) of
                Inl e \<Rightarrow> Inl e
              | Inr root_1a \<Rightarrow> Inr (earth_radius * (2 * atan2 root_a root_1a))))"

definition is_location_valid :: "real \<Rightarrow> real \<Rightarrow> error + bool" where
  "is_location_valid latitude longitude =
     (case haversine_distance latitude longitude center_latitude center_longitude of
        Inl e \<Rightarrow> Inl e
      | Inr distance \<Rightarrow> Inr (distance \<le> max_distance))"

subsection \<open>The geofence validator as the specification words it\<close>

text \<open>
  The validator of the specification, section 4.1: both points in radians,
  \<open>a = sin\<^sup>2(\<Delta>lat/2) + cos(lat1) * cos(lat2) * sin\<^sup>2(\<Delta>lon/2)\<close>,
  \<open>c = 2 * atan2(\<surd>a, \<surd>(1 - a))\<close>, \<open>distance = R * c\<close> with \<open>R = 6371.0\<close>, and
  \<open>inside = distance_km \<le> radius_km\<close>. The result is the pair \<open>(inside, distance_km)\<close>.
\<close>

definition spec_distance_km :: "real \<Rightarrow> real \<Rightarrow> real \<Rightarrow> real \<Rightarrow> real" where
  "spec_distance_km lat1 lon1 lat2 lon2 =
     (let a = (sin ((radians lat2 - radians lat1) / 2))\<^sup>2
              + cos (radians lat1) * cos (radians lat2)
                * (sin ((radians lon2 - radians lon1) / 2))\<^sup>2;
          c = 2 * atan2 (sqrt a) (sqrt (1 - a))
      in 6371.0 * c)"

subsection \<open>The geofence test on rounded arithmetic\<close>

text \<open>
  The operations of doubles that lines 127 to 151 use, each a function on the reals that
  returns the rounded result: the double that a decimal literal denotes,
  \<^verbatim>\<open>math.radians\<close>, \<open>-\<close>, \<open>+\<close>, \<open>*\<close>, \<open>/\<close>, \<^verbatim>\<open>**2\<close>, \<^verbatim>\<open>math.sin\<close>,
  \<^verbatim>\<open>math.cos\<close>, \<^verbatim>\<open>math.sqrt\<close> on a non-negative argument, and \<^verbatim>\<open>math.atan2\<close>. The
  literals \<open>1\<close>, \<open>2\<close>, \<open>5.0\<close> and \<open>6371.0\<close> are doubles as they stand, and comparing
  two doubles is exact.
\<close>

record arith =
  fl_const :: "real \<Rightarrow> real"
  fl_radians :: "real \<Rightarrow> real"
  fl_sub :: "real \<Rightarrow> real \<Rightarrow> real"
  fl_add :: "real \<Rightarrow> real \<Rightarrow> real"
  fl_mul :: "real \<Rightarrow> real \<Rightarrow> real"
  fl_div :: "real \<Rightarrow> real \<Rightarrow> real"
  fl_square :: "real \<Rightarrow> real"
  fl_sin :: "real \<Rightarrow> real"
  fl_cos :: "real \<Rightarrow> real"
  fl_sqrt :: "real \<Rightarrow> real"
  fl_atan2 :: "real \<Rightarrow> real \<Rightarrow> real"

text \<open>The arithmetic that does not round.\<close>

definition exact_arith :: arith where
  "exact_arith =
     \<lparr>fl_const = (\<lambda>x. x), fl_radians = radians, fl_sub = (\<lambda>x y. x - y),
      fl_add = (\<lambda>x y. x + y), fl_mul = (\<lambda>x y. x * y), fl_div = (\<lambda>x y. x / y),
      fl_square = (\<lambda>x. x\<^sup>2), fl_sin = sin, fl_cos = cos, fl_sqrt = sqrt,
      fl_atan2 = atan2\<rparr>"

text \<open>
  \<^verbatim>\<open>is_location_valid\<close>, lines 127 to 151, on the arithmetic \<open>ar\<close>. \<^verbatim>\<open>math.sqrt\<close>
  raises \<^verbatim>\<open>ValueError\<close> when its argument, as rounded, is negative.
\<close>

definition is_location_valid_in :: "arith \<Rightarrow> real \<Rightarrow> real \<Rightarrow> error + bool" where
  "is_location_valid_in ar latitude longitude =
     (let center_lat = fl_const ar 19.523731621451685;
          center_lon = fl_const ar (- 99.2536655776822);
          lat1_rad = fl_radians ar latitude;
          lon1_rad = fl_radians ar longitude;
          lat2_rad = fl_radians ar center_lat;
          lon2_rad = fl_radians ar center_lon;
          dlon = fl_sub ar lon2_rad lon1_rad;
          dlat = fl_sub ar lat2_rad lat1_rad;
          a = fl_add ar (fl_square ar (fl_sin ar (fl_div ar dlat 2)))
                (fl_mul ar (fl_mul ar (fl_cos ar lat1_rad) (fl_cos ar lat2_rad))
                   (fl_square ar (fl_sin ar (fl_div ar dlon 2))))
      in if a < 0 then Inl ValueError
         else (let root_a = fl_sqrt ar a;
                   rest = fl_sub ar 1 a
               in if rest < 0 then Inl ValueError
                  else (let c = fl_mul ar 2 (fl_atan2 ar root_a (fl_sqrt ar rest));
                            distance = fl_mul ar 6371.0 c
                        in Inr (distance \<le> 5.0))))"

text \<open>
  The validator of the specification, section 4.1, on the arithmetic \<open>ar\<close>: the term
  \<open>a\<close>, and the pair \<open>(inside, distance_km)\<close> with \<open>c = 2 * atan2(\<surd>a, \<surd>(1 - a))\<close>,
  \<open>distance_km = R * c\<close>, \<open>R = 6371.0\<close> and \<open>inside = distance_km \<le> radius_km\<close>.
\<close>

definition spec_term_in :: "arith \<Rightarrow> real \<Rightarrow> real \<Rightarrow> real \<Rightarrow> real \<Rightarrow> real" where
  "spec_term_in ar lat lon center_lat center_lon =
     fl_add ar
       (fl_square ar (fl_sin ar
          (fl_div ar (fl_sub ar (fl_radians ar center_lat) (fl_radians ar lat)) 2)))
       (fl_mul ar (fl_mul ar (fl_cos ar (fl_radians ar lat)) (fl_cos ar (fl_radians ar center_lat)))
          (fl_square ar (fl_sin ar
             (fl_div ar (fl_sub ar (fl_radians ar center_lon) (fl_radians ar lon)) 2))))"

definition spec_validate_in ::
  "arith \<Rightarrow> real \<Rightarrow> real \<Rightarrow> real \<Rightarrow> real \<Rightarrow> real \<Rightarrow> bool \<times> real" where
  "spec_validate_in ar lat lon center_lat center_lon radius_km =
     (let a = spec_term_in ar lat lon center_lat center_lon;
          c = fl_mul ar 2 (fl_atan2 ar (fl_sqrt ar a) (fl_sqrt ar (fl_sub ar 1 a)));
          distance_km = fl_mul ar 6371.0 c
      in (distance_km \<le> radius_km, distance_km))"


definition out_of_range :: "real \<Rightarrow> real \<Rightarrow> bool" where
  "out_of_range lat lon = (\<bar>lat\<bar> > 90 \<or> \<bar>lon\<bar> > 180)"

subsection \<open>Telegram updates and replies\<close>

text \<open>
  What a handler reads of an incoming \<^verbatim>\<open>Update\<close>: the chat, the sender
  (\<^verbatim>\<open>update.message.from_user\<close>: \<^verbatim>\<open>id\<close> and \<^verbatim>\<open>username\<close>, which Telegram may leave
  \<^verbatim>\<open>None\<close>) and the message, which is a bot command, a shared location, or anything else
  (plain text, a photo, ...).
\<close>

datatype msg_content = Command string | Location real real | Other

record update =
  chat_id :: int
  from_user_id :: int
  from_username :: "string option"
  message :: msg_content

text \<open>\<^verbatim>\<open>update.message.location\<close>: the location object, or \<^verbatim>\<open>None\<close>.\<close>

definition location :: "update \<Rightarrow> (real \<times> real) option" where
  "location upd = (case message upd of Location lat lon \<Rightarrow> Some (lat, lon) | _ \<Rightarrow> None)"

text \<open>
  The texts passed to \<^verbatim>\<open>reply_text\<close>, one constructor per literal of the source, the
  two f-strings carrying \<^verbatim>\<open>remaining_attempts\<close>:
  \<^item> \<open>Welcome\<close>: "Verifica tu asistencia con el bot de Telegram. ..." (\<^verbatim>\<open>start\<close>);
  \<^item> \<open>PromptForLocation\<close>: "Por favor comparte tu ubicacion *actual* ..." (\<^verbatim>\<open>checkin\<close>);
  \<^item> \<open>ConfirmSuccess\<close>: "Tu asistencia ha sido registrada. Gracias!";
  \<^item> \<open>RejectOutsideGeofence n\<close>: "Verificacion de ubicacion fallida! ... Intentos restantes: n";
  \<^item> \<open>ExhaustedOutsideGeofence\<close>: "Verificacion de asistencia fallida! Has excedido el
    numero maximo de intentos (3). ...";
  \<^item> \<open>RejectInvalidPayload n\<close>: "Invalid location data received! ... Attempts remaining: n";
  \<^item> \<open>ExhaustedInvalidPayload\<close>: "Check-in failed! You have exceeded the maximum number of
    attempts (3). ...";
  \<^item> \<open>Farewell\<close>: "Bye! Hope to see you around again." (\<^verbatim>\<open>cancel\<close>).
  The \<^verbatim>\<open>reply_markup\<close> argument is absent, the one-button keyboard that requests the
  location, or the empty keyboard that removes it.
\<close>

datatype reply_text =
    Welcome
  | PromptForLocation
  | ConfirmSuccess
  | RejectOutsideGeofence int
  | ExhaustedOutsideGeofence
  | RejectInvalidPayload int
  | ExhaustedInvalidPayload
  | Farewell

datatype reply_markup = NoMarkup | ShareLocationKeyboard | EmptyKeyboard

type_synonym reply = "reply_text \<times> reply_markup"

subsection \<open>Conversation states\<close>

text \<open>
  \<^verbatim>\<open>CHECK_IN = 1\<close> and \<^verbatim>\<open>GET_LOCATION = 2\<close> are the two states of the conversation
  handler. A callback returns the next state or \<^verbatim>\<open>ConversationHandler.END\<close>.
\<close>

datatype phase = CHECK_IN | GET_LOCATION

datatype next_state = Next phase | END

subsection \<open>In-memory storage\<close>

type_synonym timestamp = nat

text \<open>The dictionary \<^verbatim>\<open>{"username": username}\<close> stored per user.\<close>

datatype user_info = UserInfo (info_username: "string option")

text \<open>The dictionary appended by \<^verbatim>\<open>record_attendance\<close>, one field per key.\<close>

record attendance_record =
  user_id :: int
  username :: "string option"
  timestamp :: timestamp
  latitude :: real
  longitude :: real

record bot_state =
  user_data :: "int \<rightharpoonup> user_info"
  attendance_records :: "attendance_record list"
  attempt_counts :: "int \<rightharpoonup> int"

text \<open>
  A callback returns its reply and the next state, or raises; either way the storage it
  has written so far stays written.
\<close>

type_synonym outcome = "error + reply \<times> next_state"

subsection \<open>\<^verbatim>\<open>record_attendance\<close>\<close>

text \<open>
  \<open>now\<close> is the value that \<^verbatim>\<open>datetime.datetime.now()\<close> returns inside the call.
\<close>

definition record_attendance ::
  "timestamp \<Rightarrow> int \<Rightarrow> string option \<Rightarrow> real \<Rightarrow> real \<Rightarrow> bot_state \<Rightarrow> bot_state" where
  "record_attendance now uid uname lat lon s =
     s\<lparr>attendance_records :=
         attendance_records s @
           [\<lparr>user_id = uid, username = uname, timestamp = now,
             latitude = lat, longitude = lon\<rparr>]\<rparr>"

subsection \<open>The callbacks\<close>

definition start :: "update \<Rightarrow> bot_state \<Rightarrow> outcome \<times> bot_state" where
  "start upd s =
     (let uid = from_user_id upd;
          uname = from_username upd;
          s1 = (if user_data s uid = None
                then s\<lparr>user_data := (user_data s)(uid \<mapsto> UserInfo uname)\<rparr>
                else s)
      in (Inr ((Welcome, NoMarkup), Next CHECK_IN), s1))"

definition checkin :: "update \<Rightarrow> bot_state \<Rightarrow> outcome \<times> bot_state" where
  "checkin upd s =
     (let uid = from_user_id upd;
          s1 = s\<lparr>attempt_counts := (attempt_counts s)(uid \<mapsto> 0)\<rparr>
      in (Inr ((PromptForLocation, ShareLocationKeyboard), Next GET_LOCATION), s1))"

text \<open>
  \<^verbatim>\<open>user_data[user_id]\<close> raises \<^verbatim>\<open>KeyError\<close> for an absent key, before anything is
  written. \<^verbatim>\<open>attempt_counts[user_id] += 1\<close> reads the entry first, and would raise the
  same for an absent key.
\<close>

definition get_location :: "timestamp \<Rightarrow> update \<Rightarrow> bot_state \<Rightarrow> outcome \<times> bot_state" where
  "get_location now upd s =
     (let uid = from_user_id upd in
      case user_data s uid of
        None \<Rightarrow> (Inl KeyError, s)
      | Some info \<Rightarrow>
          (let uname = info_username info;
               s1 = (if attempt_counts s uid = None
                     then s\<lparr>attempt_counts := (attempt_counts s)(uid \<mapsto> 0)\<rparr>
                     else s)
           in case location upd of
                Some (lat, lon) \<Rightarrow>
                  (case is_location_valid lat lon of
                     Inl e \<Rightarrow> (Inl e, s1)
                   | Inr True \<Rightarrow>
                       (let s2 = record_attendance now uid uname lat lon s1;
                            s3 = s2\<lparr>attempt_counts := (attempt_counts s2)(uid \<mapsto> 0)\<rparr>
                        in (Inr ((ConfirmSuccess, EmptyKeyboard), END), s3))
                   | Inr False \<Rightarrow>
                       (case attempt_counts s1 uid of
                          None \<Rightarrow> (Inl KeyError, s1)
                        | Some n \<Rightarrow>
                            (let s2 = s1\<lparr>attempt_counts := (attempt_counts s1)(uid \<mapsto> n + 1)\<rparr>;
                                 remaining_attempts = MAX_ATTEMPTS - (n + 1)
                             in if remaining_attempts > 0
                                then (Inr ((RejectOutsideGeofence remaining_attempts,
                                            ShareLocationKeyboard), Next GET_LOCATION), s2)
                                else (Inr ((ExhaustedOutsideGeofence, EmptyKeyboard), END),
                                      s2\<lparr>attempt_counts := (attempt_counts s2)(uid \<mapsto> 0)\<rparr>))))
              | None \<Rightarrow>
                  (case attempt_counts s1 uid of
                     None \<Rightarrow> (Inl KeyError, s1)
                   | Some n \<Rightarrow>
                       (let s2 = s1\<lparr>attempt_counts := (attempt_counts s1)(uid \<mapsto> n + 1)\<rparr>;
                            remaining_attempts = MAX_ATTEMPTS - (n + 1)
                        in if remaining_attempts > 0
                           then (Inr ((RejectInvalidPayload remaining_attempts,
                                       ShareLocationKeyboard), Next GET_LOCATION), s2)
                           else (Inr ((ExhaustedInvalidPayload, EmptyKeyboard), END),
                                 s2\<lparr>attempt_counts := (attempt_counts s2)(uid \<mapsto> 0)\<rparr>)))))"

definition cancel :: "update \<Rightarrow> bot_state \<Rightarrow> outcome \<times> bot_state" where
  "cancel upd s = (Inr ((Farewell, NoMarkup), END), s)"

subsection \<open>The handler table of \<^verbatim>\<open>main\<close>\<close>

text \<open>
  \<^verbatim>\<open>main\<close> registers one \<^verbatim>\<open>ConversationHandler\<close>: the entry point
  \<^verbatim>\<open>CommandHandler("start", start)\<close>, the state \<^verbatim>\<open>CHECK_IN\<close> with
  \<^verbatim>\<open>CommandHandler("checkin", checkin)\<close>, the state \<^verbatim>\<open>GET_LOCATION\<close> with
  \<^verbatim>\<open>MessageHandler(filters.LOCATION, get_location)\<close>, and the fallback
  \<^verbatim>\<open>CommandHandler("cancel", cancel)\<close>.
\<close>

datatype callback = Start | Checkin | GetLocation | Cancel

datatype update_filter = CommandFilter string | LocationFilter

fun matches :: "update_filter \<Rightarrow> update \<Rightarrow> bool" where
  "matches (CommandFilter name) upd = (message upd = Command name)"
| "matches LocationFilter upd = (location upd \<noteq> None)"

definition entry_points :: "(update_filter \<times> callback) list" where
  "entry_points = [(CommandFilter ''start'', Start)]"

fun states :: "phase \<Rightarrow> (update_filter \<times> callback) list" where
  "states CHECK_IN = [(CommandFilter ''checkin'', Checkin)]"
| "states GET_LOCATION = [(LocationFilter, GetLocation)]"

definition fallbacks :: "(update_filter \<times> callback) list" where
  "fallbacks = [(CommandFilter ''cancel'', Cancel)]"

fun invoke :: "callback \<Rightarrow> timestamp \<Rightarrow> update \<Rightarrow> bot_state \<Rightarrow> outcome \<times> bot_state" where
  "invoke Start now upd s = start upd s"
| "invoke Checkin now upd s = checkin upd s"
| "invoke GetLocation now upd s = get_location now upd s"
| "invoke Cancel now upd s = cancel upd s"

text \<open>
  How the library's \<^verbatim>\<open>ConversationHandler\<close> uses the table, as its documentation
  describes it. The conversation is keyed by chat and user. Without a conversation only
  the entry points are tried; inside one, the handlers of the current state and then the
  fallbacks; an update that none accepts is ignored. The value a callback returns is the
  new state, and \<^verbatim>\<open>END\<close> removes the conversation. When the callback raises, the
  conversation keeps its state.
\<close>

fun first_match :: "(update_filter \<times> callback) list \<Rightarrow> update \<Rightarrow> callback option" where
  "first_match [] upd = None"
| "first_match ((f, cb) # rest) upd = (if matches f upd then Some cb else first_match rest upd)"

definition select_handler :: "phase option \<Rightarrow> update \<Rightarrow> callback option" where
  "select_handler conv upd =
     (case conv of
        None \<Rightarrow> first_match entry_points upd
      | Some ph \<Rightarrow>
          (case first_match (states ph) upd of
             Some cb \<Rightarrow> Some cb
           | None \<Rightarrow> first_match fallbacks upd))"

record app_state =
  conversations :: "int \<times> int \<rightharpoonup> phase"
  storage :: bot_state

definition process_update ::
  "timestamp \<Rightarrow> update \<Rightarrow> app_state \<Rightarrow> (error + reply) option \<times> app_state" where
  "process_update now upd app =
     (let key = (chat_id upd, from_user_id upd) in
      case select_handler (conversations app key) upd of
        None \<Rightarrow> (None, app)
      | Some cb \<Rightarrow>
          (case invoke cb now upd (storage app) of
             (Inl e, s') \<Rightarrow> (Some (Inl e), app\<lparr>storage := s'\<rparr>)
           | (Inr (r, Next ph), s') \<Rightarrow>
               (Some (Inr r),
                \<lparr>conversations = (conversations app)(key \<mapsto> ph), storage = s'\<rparr>)
           | (Inr (r, END), s') \<Rightarrow>
               (Some (Inr r),
                \<lparr>conversations = (conversations app)(key := None), storage = s'\<rparr>)))"

subsection \<open>Sequences of calls\<close>

text \<open>
  \<open>submissions\<close> calls \<^verbatim>\<open>get_location\<close> itself on the submissions of a list, one
  after the other, for as long as it returns \<^verbatim>\<open>GET_LOCATION\<close>, and returns what each
  call returned, with the storage after the last one. It is the callback called
  directly: the filter of the handler table, which lets only a message with a location
  through to \<^verbatim>\<open>get_location\<close>, is applied by \<open>process_update\<close> and not here.
\<close>

definition stays_in_GET_LOCATION :: "outcome \<Rightarrow> bool" where
  "stays_in_GET_LOCATION out =
     (case out of Inr (r, Next GET_LOCATION) \<Rightarrow> True | _ \<Rightarrow> False)"

fun submissions :: "bot_state \<Rightarrow> (timestamp \<times> update) list \<Rightarrow> outcome list \<times> bot_state" where
  "submissions s [] = ([], s)"
| "submissions s ((now, upd) # rest) =
     (let (out, s') = get_location now upd s in
      if stays_in_GET_LOCATION out
      then (let (outs, s'') = submissions s' rest in (out # outs, s''))
      else ([out], s'))"

text \<open>
  Any callbacks called in any order, each on the storage the one before left: more
  general than the runs the handler table allows.
\<close>

fun run_callbacks :: "bot_state \<Rightarrow> (callback \<times> timestamp \<times> update) list \<Rightarrow> bot_state" where
  "run_callbacks s [] = s"
| "run_callbacks s ((cb, now, upd) # rest) = run_callbacks (snd (invoke cb now upd s)) rest"

subsection \<open>Notions used to state the properties\<close>

text \<open>
  A failed submission: no location in the message (the malformed payload), or a location
  that the geofence test answers with \<^verbatim>\<open>False\<close>.
\<close>

definition failed_submission :: "update \<Rightarrow> bool" where
  "failed_submission upd =
     (case location upd of
        None \<Rightarrow> True
      | Some (lat, lon) \<Rightarrow> is_location_valid lat lon = Inr False)"

text \<open>
  What the specification's state table prescribes for a failed submission that leaves
  \<open>remaining\<close> attempts: the retry prompt with the remaining count and the state
  AwaitingLocation while \<open>remaining > 0\<close>, the exhausted-attempts message and Terminated
  otherwise; each in the variant of the failure's kind.
\<close>

definition spec_failure_outcome :: "update \<Rightarrow> int \<Rightarrow> outcome" where
  "spec_failure_outcome upd remaining =
     (if remaining > 0
      then Inr ((if location upd = None then RejectInvalidPayload remaining
                 else RejectOutsideGeofence remaining, ShareLocationKeyboard),
                Next GET_LOCATION)
      else Inr ((if location upd = None then ExhaustedInvalidPayload
                 else ExhaustedOutsideGeofence, EmptyKeyboard), END))"

text \<open>
  The outcomes the table prescribes for consecutive failed submissions, the first made
  with \<open>remaining\<close> attempts left: each failure leaves one attempt fewer.
\<close>

fun spec_failure_trace :: "int \<Rightarrow> (timestamp \<times> update) list \<Rightarrow> outcome list" where
  "spec_failure_trace remaining [] = []"
| "spec_failure_trace remaining (e # rest) =
     spec_failure_outcome (snd e) (remaining - 1) # spec_failure_trace (remaining - 1) rest"

text \<open>The storage at process start: the three containers empty.\<close>

definition initial_state :: bot_state where
  "initial_state = \<lparr>user_data = Map.empty, attendance_records = [], attempt_counts = Map.empty\<rparr>"

text \<open>
  The program at process start, without any conversation, and the updates of a list
  processed one after the other through the handler table.
\<close>

definition initial_app :: app_state where
  "initial_app = \<lparr>conversations = Map.empty, storage = initial_state\<rparr>"

fun run_updates :: "app_state \<Rightarrow> (timestamp \<times> update) list \<Rightarrow> app_state" where
  "run_updates app [] = app"
| "run_updates app ((now, upd) # rest) = run_updates (snd (process_update now upd app)) rest"


subsection \<open>Concrete inputs\<close>

text \<open>
  A storage in which user 7 is registered under the name "ana", and updates of that user:
  the three commands, a message without a location, a report from the center of the
  allowed area sent under another username, a report from the center's longitude plus
  360 degrees, and a report from the center's latitude plus 180 degrees.
\<close>

definition ana_registered :: bot_state where
  "ana_registered =
     \<lparr>user_data = [7 \<mapsto> UserInfo (Some ''ana'')], attendance_records = [],
      attempt_counts = Map.empty\<rparr>"

definition update_of :: "string option \<Rightarrow> msg_content \<Rightarrow> update" where
  "update_of uname m = \<lparr>chat_id = 7, from_user_id = 7, from_username = uname, message = m\<rparr>"

definition start_update :: update where
  "start_update = update_of (Some ''ana'') (Command ''start'')"

definition checkin_update :: update where
  "checkin_update = update_of (Some ''ana'') (Command ''checkin'')"

definition cancel_update :: update where
  "cancel_update = update_of (Some ''ana'') (Command ''cancel'')"

definition text_update :: update where
  "text_update = update_of (Some ''ana'') Other"

definition center_update :: update where
  "center_update =
     update_of (Some ''ana_maria'') (Location 19.523731621451685 (- 99.2536655776822))"

definition shifted_update :: update where
  "shifted_update = update_of (Some ''ana'') (Location 19.523731621451685 260.7463344223178)"

definition far_update :: update where
  "far_update =
     update_of (Some ''ana'') (Location 199.523731621451685 (- 99.2536655776822))"

text \<open>
  The program after user 7 has sent \<^verbatim>\<open>/start\<close> and \<^verbatim>\<open>/checkin\<close>, and a location
  report of user 8, who has sent nothing before.
\<close>

definition awaiting_location :: app_state where
  "awaiting_location = run_updates initial_app [(1, start_update), (2, checkin_update)]"


section \<open>The geofence test\<close>

subsection \<open>The haversine term stays between 0 and 1\<close>

lemma sin_half_squared:
  fixes x :: real
  shows "(sin (x / 2))\<^sup>2 = (1 - cos x) / 2"
proof -
  have "cos x = cos (2 * (x / 2))" by simp
  also have "\<dots> = 1 - 2 * (sin (x / 2))\<^sup>2" by (rule cos_double_sin)
  finally show ?thesis by simp
qed

text \<open>
  The term \<open>a\<close> is a convex combination, with weight \<open>sin\<^sup>2(\<Delta>lon/2)\<close>, of
  \<open>(1 - cos (lat2 - lat1)) / 2\<close> and \<open>(1 + cos (lat1 + lat2)) / 2\<close>.
\<close>

lemma haversine_term_convex:
  fixes p q d :: real
  shows "(sin ((q - p) / 2))\<^sup>2 + cos p * cos q * (sin (d / 2))\<^sup>2
     = (1 - (sin (d / 2))\<^sup>2) * ((1 - cos (q - p)) / 2)
       + (sin (d / 2))\<^sup>2 * ((1 + cos (p + q)) / 2)"
  unfolding sin_half_squared [of "q - p"]
  by (simp add: cos_diff cos_add field_simps)

lemma haversine_term_nonneg:
  fixes p q d :: real
  shows "0 \<le> (sin ((q - p) / 2))\<^sup>2 + cos p * cos q * (sin (d / 2))\<^sup>2"
proof -
  have s: "(sin (d / 2))\<^sup>2 \<le> 1" "0 \<le> (sin (d / 2))\<^sup>2"
    by (simp_all add: abs_square_le_1)
  have a: "0 \<le> (1 - cos (q - p)) / 2" by simp
  have "- 1 \<le> cos (p + q)" by (rule cos_ge_minus_one)
  then have "0 \<le> 1 + cos (p + q)" by linarith
  then have b: "0 \<le> (1 + cos (p + q)) / 2" by simp
  have "0 \<le> (1 - (sin (d / 2))\<^sup>2) * ((1 - cos (q - p)) / 2)"
    using s a by (intro mult_nonneg_nonneg) simp_all
  moreover have "0 \<le> (sin (d / 2))\<^sup>2 * ((1 + cos (p + q)) / 2)"
    using s b by (intro mult_nonneg_nonneg) simp_all
  ultimately show ?thesis
    unfolding haversine_term_convex by linarith
qed

lemma haversine_term_le_1:
  fixes p q d :: real
  shows "(sin ((q - p) / 2))\<^sup>2 + cos p * cos q * (sin (d / 2))\<^sup>2 \<le> 1"
proof -
  define h where "h = (sin (d / 2))\<^sup>2"
  have s: "h \<le> 1" "0 \<le> h"
    by (simp_all add: h_def abs_square_le_1)
  have "- 1 \<le> cos (q - p)" by (rule cos_ge_minus_one)
  then have a: "(1 - cos (q - p)) / 2 \<le> 1" by simp
  have b: "(1 + cos (p + q)) / 2 \<le> 1" by simp
  have "(1 - h) * ((1 - cos (q - p)) / 2) \<le> (1 - h) * 1"
    using s a by (intro mult_left_mono) simp_all
  moreover have "h * ((1 + cos (p + q)) / 2) \<le> h * 1"
    using s b by (intro mult_left_mono) simp_all
  ultimately have
    "(1 - h) * ((1 - cos (q - p)) / 2) + h * ((1 + cos (p + q)) / 2) \<le> (1 - h) * 1 + h * 1"
    by (rule add_mono)
  then have "(1 - h) * ((1 - cos (q - p)) / 2) + h * ((1 + cos (p + q)) / 2) \<le> 1"
    by simp
  then show ?thesis
    unfolding haversine_term_convex h_def .
qed

subsection \<open>The source's formula never raises and is the specification's\<close>

lemma haversine_distance_eq:
  "haversine_distance lat1 lon1 lat2 lon2 = Inr (spec_distance_km lat1 lon1 lat2 lon2)"
proof -
  let ?a = "(sin ((radians lat2 - radians lat1) / 2))\<^sup>2
        + cos (radians lat1) * cos (radians lat2)
          * (sin ((radians lon2 - radians lon1) / 2))\<^sup>2"
  have "0 \<le> ?a" by (rule haversine_term_nonneg)
  moreover have "?a \<le> 1" by (rule haversine_term_le_1)
  ultimately show ?thesis
    by (simp add: haversine_distance_def spec_distance_km_def math_sqrt_def
        earth_radius_def Let_def)
qed

lemma is_location_valid_eq:
  "is_location_valid lat lon =
     Inr (spec_distance_km lat lon center_latitude center_longitude \<le> max_distance)"
  by (simp add: is_location_valid_def haversine_distance_eq)

lemma spec_distance_km_commute:
  "spec_distance_km lat1 lon1 lat2 lon2 = spec_distance_km lat2 lon2 lat1 lon1"
proof -
  have d: "(sin ((x - y) / 2))\<^sup>2 = (sin ((y - x) / 2))\<^sup>2" for x y :: real
  proof -
    have "(x - y) / 2 = - ((y - x) / 2)" by (simp add: field_simps)
    then have "sin ((x - y) / 2) = - sin ((y - x) / 2)"
      by (simp only: sin_minus)
    then show ?thesis by simp
  qed
  show ?thesis
    unfolding spec_distance_km_def Let_def
    by (simp add: d [of "radians lat2" "radians lat1"] d [of "radians lon2" "radians lon1"]
        mult.commute)
qed

subsection \<open>Three reports whose exact distance is known\<close>

text \<open>The center itself is at distance 0.\<close>

lemma distance_center:
  "spec_distance_km center_latitude center_longitude center_latitude center_longitude = 0"
  by (simp add: spec_distance_km_def atan2_def)

text \<open>The center's longitude plus 360 degrees is the center again: distance 0.\<close>

lemma distance_shifted:
  "spec_distance_km 19.523731621451685 260.7463344223178 center_latitude center_longitude = 0"
proof -
  have "radians center_longitude - radians 260.7463344223178 = - (2 * pi)"
    by (simp add: radians_def center_longitude_def field_simps)
  then show ?thesis
    by (simp add: spec_distance_km_def atan2_def center_latitude_def)
qed

text \<open>The center's latitude plus 180 degrees is half a great circle away.\<close>

lemma distance_far:
  "spec_distance_km 199.523731621451685 (- 99.2536655776822)
     center_latitude center_longitude = 6371 * pi"
proof -
  have r: "radians center_latitude - radians 199.523731621451685 = - pi"
    by (simp add: radians_def center_latitude_def field_simps)
  show ?thesis
    unfolding spec_distance_km_def Let_def r
    by (simp add: center_longitude_def atan2_def)
qed

subsection \<open>The test on rounded arithmetic\<close>

text \<open>
  In the arithmetic that does not round, the test on an arithmetic is the exact test,
  and neither argument of \<^verbatim>\<open>math.sqrt\<close> is negative, whatever the report.
\<close>

lemma spec_term_exact:
  "spec_term_in exact_arith lat lon clat clon =
     (sin ((radians clat - radians lat) / 2))\<^sup>2
       + cos (radians lat) * cos (radians clat) * (sin ((radians clon - radians lon) / 2))\<^sup>2"
  by (simp add: spec_term_in_def exact_arith_def)

lemma spec_validate_exact:
  "spec_validate_in exact_arith lat lon clat clon r =
     (spec_distance_km lat lon clat clon \<le> r, spec_distance_km lat lon clat clon)"
  by (simp add: spec_validate_in_def spec_term_exact spec_distance_km_def Let_def)
    (simp add: exact_arith_def)

lemma exact_arith_never_raises:
  "0 \<le> spec_term_in exact_arith lat lon clat clon"
  "0 \<le> fl_sub exact_arith 1 (spec_term_in exact_arith lat lon clat clon)"
proof -
  show "0 \<le> spec_term_in exact_arith lat lon clat clon"
    unfolding spec_term_exact by (rule haversine_term_nonneg)
  have "spec_term_in exact_arith lat lon clat clon \<le> 1"
    unfolding spec_term_exact by (rule haversine_term_le_1)
  then show "0 \<le> fl_sub exact_arith 1 (spec_term_in exact_arith lat lon clat clon)"
    by (simp add: exact_arith_def)
qed

lemma is_location_valid_in_cases:
  "is_location_valid_in ar lat lon =
     (if spec_term_in ar lat lon (fl_const ar 19.523731621451685)
           (fl_const ar (- 99.2536655776822)) < 0
         \<or> fl_sub ar 1 (spec_term_in ar lat lon (fl_const ar 19.523731621451685)
              (fl_const ar (- 99.2536655776822))) < 0
      then Inl ValueError
      else Inr (fst (spec_validate_in ar lat lon (fl_const ar 19.523731621451685)
                       (fl_const ar (- 99.2536655776822)) 5.0)))"
  by (simp add: is_location_valid_in_def spec_validate_in_def spec_term_in_def Let_def)

lemma is_location_valid_in_exact:
  "is_location_valid_in exact_arith lat lon = is_location_valid lat lon"
proof -
  have "\<not> (spec_term_in exact_arith lat lon (fl_const exact_arith 19.523731621451685)
           (fl_const exact_arith (- 99.2536655776822)) < 0
         \<or> fl_sub exact_arith 1 (spec_term_in exact_arith lat lon
              (fl_const exact_arith 19.523731621451685)
              (fl_const exact_arith (- 99.2536655776822))) < 0)"
    using exact_arith_never_raises [of lat lon "fl_const exact_arith 19.523731621451685"
        "fl_const exact_arith (- 99.2536655776822)"]
    by (simp add: not_less)
  then have "is_location_valid_in exact_arith lat lon =
      Inr (fst (spec_validate_in exact_arith lat lon (fl_const exact_arith 19.523731621451685)
                       (fl_const exact_arith (- 99.2536655776822)) 5.0))"
    by (simp only: is_location_valid_in_cases if_False)
  also have "\<dots> = is_location_valid lat lon"
    by (simp add: spec_validate_exact is_location_valid_eq max_distance_def
        center_latitude_def center_longitude_def)
      (simp add: exact_arith_def)
  finally show ?thesis .
qed



text \<open>
  Claim C8. The distance that the validator's formula computes between two points is
  symmetric: from \<open>A\<close> to \<open>B\<close> it is what it is from \<open>B\<close> to \<open>A\<close>.
\<close>

theorem haversine_distance_symmetric:
  "haversine_distance lat1 lon1 lat2 lon2 = haversine_distance lat2 lon2 lat1 lon1"
  using spec_distance_km_commute [of lat1 lon1 lat2 lon2]
  by (simp add: haversine_distance_eq)

section \<open>The location handler, step by step\<close>

lemma get_location_unregistered:
  "user_data s (from_user_id upd) = None \<Longrightarrow> get_location now upd s = (Inl KeyError, s)"
  by (simp add: get_location_def)

lemma get_location_success:
  assumes "user_data s uid = Some info" and "from_user_id upd = uid"
    and "location upd = Some (lat, lon)" and "is_location_valid lat lon = Inr True"
  shows "get_location now upd s =
           (Inr ((ConfirmSuccess, EmptyKeyboard), END),
            s\<lparr>attendance_records := attendance_records s @
                 [\<lparr>user_id = uid, username = info_username info, timestamp = now,
                   latitude = lat, longitude = lon\<rparr>],
              attempt_counts := (attempt_counts s)(uid \<mapsto> 0)\<rparr>)"
  using assms
  by (simp add: get_location_def Let_def record_attendance_def)

lemma get_location_failed:
  assumes "user_data s uid = Some info" and "from_user_id upd = uid"
    and "failed_submission upd" and "attempt_counts s uid = Some n"
  shows "get_location now upd s =
           (spec_failure_outcome upd (MAX_ATTEMPTS - (n + 1)),
            s\<lparr>attempt_counts := (attempt_counts s)
                 (uid \<mapsto> if MAX_ATTEMPTS - (n + 1) > 0 then n + 1 else 0)\<rparr>)"
  using assms
  by (auto simp add: get_location_def failed_submission_def spec_failure_outcome_def Let_def
      split: option.splits)

lemma get_location_init:
  assumes "user_data s uid \<noteq> None" and "attempt_counts s uid = None"
    and "from_user_id upd = uid"
  shows "get_location now upd s =
         get_location now upd (s\<lparr>attempt_counts := (attempt_counts s)(uid \<mapsto> 0)\<rparr>)"
  using assms
  by (auto simp add: get_location_def Let_def record_attendance_def
      split: option.splits sum.splits bool.splits)

lemma get_location_failed_ledger:
  assumes "failed_submission upd"
  shows "attendance_records (snd (get_location now upd s)) = attendance_records s"
  using assms
  by (auto simp add: get_location_def failed_submission_def Let_def
      split: option.splits)

lemma stays_failure:
  "stays_in_GET_LOCATION (spec_failure_outcome upd r) = (r > 0)"
  by (simp add: stays_in_GET_LOCATION_def spec_failure_outcome_def)

lemma spec_failure_trace_length: "length (spec_failure_trace r evs) = length evs"
  by (induction evs arbitrary: r) simp_all

lemma spec_failure_trace_nth:
  "k < length evs \<Longrightarrow>
     spec_failure_trace r evs ! k = spec_failure_outcome (snd (evs ! k)) (r - (int k + 1))"
proof (induction evs arbitrary: r k)
  case Nil
  then show ?case by simp
next
  case (Cons e evs)
  show ?case
  proof (cases k)
    case 0
    then show ?thesis by simp
  next
    case (Suc j)
    then have "j < length evs" using Cons.prems by simp
    then have "spec_failure_trace (r - 1) evs ! j =
                 spec_failure_outcome (snd (evs ! j)) (r - 1 - (int j + 1))"
      by (rule Cons.IH)
    moreover have "r - 1 - (int j + 1) = r - (int (Suc j) + 1)" by simp
    ultimately show ?thesis using Suc by simp
  qed
qed

lemma submissions_failed_ledger:
  "\<forall>e \<in> set evs. failed_submission (snd e) \<Longrightarrow>
     attendance_records (snd (submissions s evs)) = attendance_records s"
proof (induction evs arbitrary: s)
  case Nil
  then show ?case by simp
next
  case (Cons e evs)
  obtain now upd where e: "e = (now, upd)" by (cases e)
  have f: "failed_submission upd" using Cons.prems e by simp
  have one: "attendance_records (snd (get_location now upd s)) = attendance_records s"
    using f by (rule get_location_failed_ledger)
  have rest: "attendance_records (snd (submissions (snd (get_location now upd s)) evs))
      = attendance_records (snd (get_location now upd s))"
    using Cons.prems by (intro Cons.IH) simp
  show ?case
    using one rest by (simp add: e split_def Let_def)
qed

lemma run_get_location_failed_ledger:
  "\<forall>e \<in> set evs. failed_submission (snd e) \<Longrightarrow>
     attendance_records (run_callbacks s (map (\<lambda>e. (GetLocation, e)) evs)) = attendance_records s"
proof (induction evs arbitrary: s)
  case Nil
  then show ?case by simp
next
  case (Cons e evs)
  obtain now upd where e: "e = (now, upd)" by (cases e)
  have f: "failed_submission upd" using Cons.prems e by simp
  have "attendance_records (run_callbacks (snd (get_location now upd s)) (map (\<lambda>e. (GetLocation, e)) evs))
      = attendance_records (snd (get_location now upd s))"
    using Cons.prems by (intro Cons.IH) simp
  then show ?case
    using get_location_failed_ledger [OF f, of now s] by (simp add: e)
qed

lemma invoke_user_data:
  "user_data s uid = Some i \<Longrightarrow> user_data (snd (invoke cb now upd s)) uid = Some i"
  by (cases cb)
    (auto simp add: start_def checkin_def cancel_def get_location_def Let_def
      record_attendance_def split: option.splits sum.splits bool.splits)

lemma run_callbacks_user_data:
  "user_data s uid = Some i \<Longrightarrow> user_data (run_callbacks s calls) uid = Some i"
proof (induction calls arbitrary: s)
  case Nil
  then show ?case by simp
next
  case (Cons c calls)
  obtain cb now upd where c: "c = (cb, now, upd)" by (cases c)
  show ?case
    using Cons.prems by (simp add: c Cons.IH invoke_user_data)
qed

lemma submissions_failed:
  assumes "user_data s uid \<noteq> None" and "attempt_counts s uid = Some n"
    and "\<forall>e \<in> set evs. from_user_id (snd e) = uid \<and> failed_submission (snd e)"
    and "n < MAX_ATTEMPTS" and "n + int (length evs) \<le> MAX_ATTEMPTS"
  shows "submissions s evs =
           (spec_failure_trace (MAX_ATTEMPTS - n) evs,
            s\<lparr>attempt_counts := (attempt_counts s)
                 (uid \<mapsto> if n + int (length evs) < MAX_ATTEMPTS
                           then n + int (length evs) else 0)\<rparr>)"
  using assms
proof (induction evs arbitrary: s n)
  case Nil
  then show ?case by (simp add: fun_upd_idem)
next
  case (Cons e evs)
  obtain now upd where e: "e = (now, upd)" by (cases e)
  from Cons.prems obtain info where info: "user_data s uid = Some info" by auto
  have u: "from_user_id upd = uid" "failed_submission upd"
    using Cons.prems(3) e by simp_all
  let ?s' = "s\<lparr>attempt_counts := (attempt_counts s)
                 (uid \<mapsto> if MAX_ATTEMPTS - (n + 1) > 0 then n + 1 else 0)\<rparr>"
  have step: "get_location now upd s = (spec_failure_outcome upd (MAX_ATTEMPTS - (n + 1)), ?s')"
    using get_location_failed [OF info u(1) u(2) Cons.prems(2)] .
  define r where "r = MAX_ATTEMPTS - (n + 1)"
  have r: "MAX_ATTEMPTS - n - 1 = r" "MAX_ATTEMPTS - (n + 1) = r"
    by (simp_all add: r_def)
  have trace: "spec_failure_trace (MAX_ATTEMPTS - n) (e # evs) =
                 spec_failure_outcome upd r # spec_failure_trace r evs"
    by (simp add: e r)
  show ?case
  proof (cases "r > 0")
    case True
    define m where "m = (n + 1) + int (length evs)"
    have m: "n + int (length (e # evs)) = m"
      by (simp add: m_def)
    have s': "?s' = s\<lparr>attempt_counts := (attempt_counts s)(uid \<mapsto> n + 1)\<rparr>"
      using True by (simp add: r)
    have "submissions ?s' evs =
           (spec_failure_trace (MAX_ATTEMPTS - (n + 1)) evs,
            ?s'\<lparr>attempt_counts := (attempt_counts ?s')
                 (uid \<mapsto> if (n + 1) + int (length evs) < MAX_ATTEMPTS
                           then (n + 1) + int (length evs) else 0)\<rparr>)"
      using Cons.prems True by (intro Cons.IH) (auto simp add: r_def)
    then have ih: "submissions ?s' evs =
           (spec_failure_trace r evs,
            s\<lparr>attempt_counts := (attempt_counts s)
                 (uid \<mapsto> if m < MAX_ATTEMPTS then m else 0)\<rparr>)"
      unfolding m_def [symmetric] r by (simp add: s')
    have "submissions s (e # evs) =
            (spec_failure_outcome upd r # spec_failure_trace r evs,
             s\<lparr>attempt_counts := (attempt_counts s)
                  (uid \<mapsto> if m < MAX_ATTEMPTS then m else 0)\<rparr>)"
      using True ih by (simp add: e step r stays_failure)
    then show ?thesis
      unfolding trace m .
  next
    case False
    then have evs: "evs = []"
      using Cons.prems(5) by (cases evs) (simp_all add: r_def)
    have fin: "(if n + int (length (e # evs)) < MAX_ATTEMPTS
                then n + int (length (e # evs)) else 0) = 0"
      using False by (simp add: evs r_def)
    have "submissions s (e # evs) =
        ([spec_failure_outcome upd r], s\<lparr>attempt_counts := (attempt_counts s)(uid \<mapsto> 0)\<rparr>)"
      using False by (simp add: e step r stays_failure)
    moreover have "spec_failure_trace r evs = []"
      by (simp add: evs)
    ultimately show ?thesis
      by (simp only: trace fin)
  qed
qed

section \<open>Facts about the concrete inputs\<close>

lemma center_inside:
  "is_location_valid 19.523731621451685 (- 99.2536655776822) = Inr True"
  using distance_center
  by (simp add: is_location_valid_eq max_distance_def center_latitude_def center_longitude_def)

lemma shifted_inside:
  "is_location_valid 19.523731621451685 260.7463344223178 = Inr True"
  using distance_shifted by (simp add: is_location_valid_eq max_distance_def)

lemma far_outside:
  "is_location_valid 199.523731621451685 (- 99.2536655776822) = Inr False"
proof -
  have "5 < 6371 * pi" using pi_ge_two by simp
  then show ?thesis
    using distance_far by (simp add: is_location_valid_eq max_distance_def)
qed

lemma failed_text_update: "failed_submission text_update"
  by (simp add: failed_submission_def text_update_def update_of_def location_def)

lemma failed_far_update: "failed_submission far_update"
  using far_outside
  by (simp add: failed_submission_def far_update_def update_of_def location_def)

lemma user_of_updates:
  "from_user_id text_update = 7" "from_user_id far_update = 7"
  "from_user_id center_update = 7" "from_user_id checkin_update = 7"
  "from_user_id start_update = 7" "from_user_id shifted_update = 7"
  "from_user_id cancel_update = 7"
  by (simp_all add: text_update_def far_update_def center_update_def checkin_update_def
      start_update_def shifted_update_def cancel_update_def update_of_def)

section \<open>Dispatch through the handler table\<close>

lemma select_handler_None:
  "select_handler None upd = (if message upd = Command ''start'' then Some Start else None)"
  by (simp add: select_handler_def entry_points_def)

lemma select_handler_CHECK_IN:
  "select_handler (Some CHECK_IN) upd =
     (if message upd = Command ''checkin'' then Some Checkin
      else if message upd = Command ''cancel'' then Some Cancel else None)"
  by (simp add: select_handler_def fallbacks_def)

lemma select_handler_GET_LOCATION:
  "select_handler (Some GET_LOCATION) upd =
     (if location upd \<noteq> None then Some GetLocation
      else if message upd = Command ''cancel'' then Some Cancel else None)"
  by (simp add: select_handler_def fallbacks_def)

lemma no_location_ignored:
  assumes "conversations app (chat_id upd, from_user_id upd) = Some GET_LOCATION"
    and "location upd = None" and "message upd \<noteq> Command ''cancel''"
  shows "process_update now upd app = (None, app)"
  using assms by (simp add: process_update_def select_handler_GET_LOCATION)













text \<open>After \<^verbatim>\<open>/start\<close> and \<^verbatim>\<open>/checkin\<close> user 7 is awaited with the counter at 0.\<close>

lemma awaiting_location_eq:
  "awaiting_location =
     \<lparr>conversations = [(7, 7) \<mapsto> GET_LOCATION],
      storage = ana_registered\<lparr>attempt_counts := [7 \<mapsto> 0]\<rparr>\<rparr>"
proof -
  have k: "chat_id start_update = 7" "from_user_id start_update = 7"
    "chat_id checkin_update = 7" "from_user_id checkin_update = 7"
    "message start_update = Command ''start''" "message checkin_update = Command ''checkin''"
    "from_username start_update = Some ''ana''"
    by (simp_all add: start_update_def checkin_update_def update_of_def)
  have one: "snd (process_update 1 start_update initial_app) =
      \<lparr>conversations = [(7, 7) \<mapsto> CHECK_IN], storage = ana_registered\<rparr>"
    by (simp add: process_update_def select_handler_None k initial_app_def start_def
        initial_state_def ana_registered_def)
  have two: "snd (process_update 2 checkin_update
        \<lparr>conversations = [(7, 7) \<mapsto> CHECK_IN], storage = ana_registered\<rparr>) =
      \<lparr>conversations = [(7, 7) \<mapsto> GET_LOCATION],
       storage = ana_registered\<lparr>attempt_counts := [7 \<mapsto> 0]\<rparr>\<rparr>"
    by (simp add: process_update_def select_handler_CHECK_IN k checkin_def ana_registered_def)
  show ?thesis
    by (simp only: awaiting_location_def run_updates.simps one two)
qed

lemma location_counted_through_table:
  "process_update 3 far_update awaiting_location =
     (Some (Inr (RejectOutsideGeofence 2, ShareLocationKeyboard)),
      \<lparr>conversations = [(7, 7) \<mapsto> GET_LOCATION],
       storage = ana_registered\<lparr>attempt_counts := [7 \<mapsto> 1]\<rparr>\<rparr>)"
proof -
  have k: "chat_id far_update = 7" "from_user_id far_update = 7"
    "location far_update \<noteq> None"
    by (simp_all add: far_update_def update_of_def location_def)
  have reg: "user_data (storage awaiting_location) 7 = Some (UserInfo (Some ''ana''))"
    by (simp add: awaiting_location_eq ana_registered_def)
  have cnt: "attempt_counts (storage awaiting_location) 7 = Some 0"
    by (simp add: awaiting_location_eq)
  have g: "get_location 3 far_update (storage awaiting_location) =
      (Inr ((RejectOutsideGeofence 2, ShareLocationKeyboard), Next GET_LOCATION),
       ana_registered\<lparr>attempt_counts := [7 \<mapsto> 1]\<rparr>)"
    using get_location_failed [OF reg k(2) failed_far_update cnt, of 3] k(3)
    by (simp add: spec_failure_outcome_def MAX_ATTEMPTS_def awaiting_location_eq
        ana_registered_def)
  have sel: "select_handler (conversations awaiting_location (chat_id far_update,
      from_user_id far_update)) far_update = Some GetLocation"
    using k by (simp add: awaiting_location_eq select_handler_GET_LOCATION)
  show ?thesis
    using sel g by (simp add: process_update_def k awaiting_location_eq)
qed

section \<open>The attempt limit\<close>

text \<open>
  Claim C2 counts a message without a location as a failed submission. User 7 has sent
  \<^verbatim>\<open>/start\<close> and \<^verbatim>\<open>/checkin\<close>: the conversation is in \<^verbatim>\<open>GET_LOCATION\<close> and the
  counter is 0. A message without a location then matches neither
  \<^verbatim>\<open>filters.LOCATION\<close> nor the fallback, and the table ignores it: no reply, the
  counter still 0, the conversation still in \<^verbatim>\<open>GET_LOCATION\<close>, also after three such
  messages. \<^verbatim>\<open>get_location\<close> itself, called on that message, would have counted it
  and replied with 2 remaining attempts; and a location outside the allowed area does
  reach it through the table and is counted.
\<close>

theorem text_message_not_counted:
  "conversations awaiting_location (7, 7) = Some GET_LOCATION
   \<and> attempt_counts (storage awaiting_location) 7 = Some 0
   \<and> process_update 3 text_update awaiting_location = (None, awaiting_location)
   \<and> run_updates awaiting_location [(3, text_update), (4, text_update), (5, text_update)]
       = awaiting_location
   \<and> fst (get_location 3 text_update (storage awaiting_location))
       = Inr ((RejectInvalidPayload 2, ShareLocationKeyboard), Next GET_LOCATION)
   \<and> fst (process_update 3 far_update awaiting_location)
       = Some (Inr (RejectOutsideGeofence 2, ShareLocationKeyboard))"
proof -
  have k: "chat_id text_update = 7" "from_user_id text_update = 7"
    "location text_update = None" "message text_update \<noteq> Command ''cancel''"
    by (simp_all add: text_update_def update_of_def location_def)
  have conv: "conversations awaiting_location (chat_id text_update, from_user_id text_update)
      = Some GET_LOCATION"
    by (simp add: awaiting_location_eq k)
  have ignored: "process_update now text_update awaiting_location = (None, awaiting_location)"
    for now
    using conv k(3) k(4) by (rule no_location_ignored)
  have reg: "user_data (storage awaiting_location) 7 = Some (UserInfo (Some ''ana''))"
    by (simp add: awaiting_location_eq ana_registered_def)
  have cnt: "attempt_counts (storage awaiting_location) 7 = Some 0"
    by (simp add: awaiting_location_eq)
  have direct: "fst (get_location 3 text_update (storage awaiting_location))
       = Inr ((RejectInvalidPayload 2, ShareLocationKeyboard), Next GET_LOCATION)"
    using get_location_failed [OF reg k(2) failed_text_update cnt, of 3] k(3)
    by (simp add: spec_failure_outcome_def MAX_ATTEMPTS_def)
  show ?thesis
    using conv cnt direct by (simp add: ignored k location_counted_through_table)
qed

section \<open>A successful check-in\<close>

text \<open>
  Claim C3. A submission of a registered user that carries a location which the geofence
  test accepts makes \<^verbatim>\<open>get_location\<close> append exactly one record, with the user's id,
  the stored username, the time of the call and the submitted coordinates, set that
  user's counter to 0, reply with the success message, and end the conversation.
\<close>

theorem successful_submission_recorded:
  assumes "user_data s uid = Some info" and "from_user_id upd = uid"
    and "location upd = Some (lat, lon)" and "is_location_valid lat lon = Inr True"
  shows "get_location now upd s =
           (Inr ((ConfirmSuccess, EmptyKeyboard), END),
            s\<lparr>attendance_records := attendance_records s @
                 [\<lparr>user_id = uid, username = info_username info, timestamp = now,
                   latitude = lat, longitude = lon\<rparr>],
              attempt_counts := (attempt_counts s)(uid \<mapsto> 0)\<rparr>)"
  using assms by (rule get_location_success)

theorem successful_submission_recorded_witness:
  "get_location 5 center_update (ana_registered\<lparr>attempt_counts := [7 \<mapsto> 2]\<rparr>) =
     (Inr ((ConfirmSuccess, EmptyKeyboard), END),
      ana_registered
        \<lparr>attendance_records :=
           [\<lparr>user_id = 7, username = Some ''ana'', timestamp = 5,
             latitude = 19.523731621451685, longitude = - 99.2536655776822\<rparr>],
         attempt_counts := [7 \<mapsto> 0]\<rparr>)"
proof -
  have reg: "user_data (ana_registered\<lparr>attempt_counts := [7 \<mapsto> 2]\<rparr>) 7
      = Some (UserInfo (Some ''ana''))"
    by (simp add: ana_registered_def)
  have loc: "location center_update = Some (19.523731621451685, - 99.2536655776822)"
    by (simp add: center_update_def update_of_def location_def)
  show ?thesis
    using successful_submission_recorded [OF reg user_of_updates(3) loc center_inside, of 5]
    by (simp add: ana_registered_def)
qed

section \<open>Failures never touch the ledger\<close>

text \<open>
  Claim C4. A failed submission leaves \<^verbatim>\<open>attendance_records\<close> as it was, from any
  storage and for any user; so does any number of them, whether \<^verbatim>\<open>get_location\<close> is
  fed them until the conversation ends or called on every one regardless.
\<close>

theorem failed_submissions_keep_ledger:
  assumes "\<forall>e \<in> set evs. failed_submission (snd e)"
  shows "(\<forall>e \<in> set evs. \<forall>s'.
            attendance_records (snd (get_location (fst e) (snd e) s')) = attendance_records s')
    \<and> attendance_records (snd (submissions s evs)) = attendance_records s
    \<and> attendance_records (run_callbacks s (map (\<lambda>e. (GetLocation, e)) evs))
        = attendance_records s"
  using assms
  by (simp add: get_location_failed_ledger submissions_failed_ledger
      run_get_location_failed_ledger)

theorem failed_submissions_keep_ledger_witness:
  "attendance_records
     (run_callbacks ana_registered
        (map (\<lambda>e. (GetLocation, e))
           [(1, far_update), (2, text_update), (3, far_update), (4, text_update)])) = []
   \<and> attendance_records
       (snd (submissions ana_registered
          [(1, far_update), (2, text_update), (3, far_update), (4, text_update)])) = []"
proof -
  have all: "\<forall>e \<in> set [(1::nat, far_update), (2, text_update), (3, far_update), (4, text_update)].
      failed_submission (snd e)"
    by (simp add: failed_text_update failed_far_update)
  have "attendance_records ana_registered = []"
    by (simp add: ana_registered_def)
  then show ?thesis
    using failed_submissions_keep_ledger [OF all, of ana_registered]
    by (simp del: submissions.simps run_callbacks.simps)
qed

section \<open>A user without a counter\<close>

text \<open>
  Claim C9. For a registered user whose counter has no entry, \<^verbatim>\<open>get_location\<close> does
  what it does from the storage in which the entry is 0. Such a user gets the full
  \<open>MAX_ATTEMPTS\<close> attempts: of \<open>MAX_ATTEMPTS\<close> failed submissions the \<open>k\<close>-th is answered
  with \<open>MAX_ATTEMPTS - (k + 1)\<close> remaining attempts, and only the last ends the
  conversation.
\<close>

theorem missing_counter_initialised:
  assumes "user_data s uid \<noteq> None" and "attempt_counts s uid = None"
    and "from_user_id upd = uid"
    and "\<forall>e \<in> set evs. from_user_id (snd e) = uid \<and> failed_submission (snd e)"
    and "int (length evs) = MAX_ATTEMPTS"
  shows "get_location now upd s =
           get_location now upd (s\<lparr>attempt_counts := (attempt_counts s)(uid \<mapsto> 0)\<rparr>)
    \<and> length (fst (submissions s evs)) = length evs
    \<and> (\<forall>k < length evs.
          fst (submissions s evs) ! k =
            spec_failure_outcome (snd (evs ! k)) (MAX_ATTEMPTS - (int k + 1)))
    \<and> snd (submissions s evs) = s\<lparr>attempt_counts := (attempt_counts s)(uid \<mapsto> 0)\<rparr>"
proof -
  let ?s0 = "s\<lparr>attempt_counts := (attempt_counts s)(uid \<mapsto> 0)\<rparr>"
  obtain e rest where evs: "evs = e # rest"
    using assms(5) by (cases evs) (simp_all add: MAX_ATTEMPTS_def)
  obtain t u where e: "e = (t, u)" by (cases e)
  have u: "from_user_id u = uid" using assms(4) evs e by simp
  have first: "get_location t u s = get_location t u ?s0"
    using assms(1,2) u by (rule get_location_init)
  have same: "submissions s evs = submissions ?s0 evs"
    by (simp add: evs e first)
  have "submissions ?s0 evs =
           (spec_failure_trace (MAX_ATTEMPTS - 0) evs,
            ?s0\<lparr>attempt_counts := (attempt_counts ?s0)
                 (uid \<mapsto> if 0 + int (length evs) < MAX_ATTEMPTS
                           then 0 + int (length evs) else 0)\<rparr>)"
    using assms by (intro submissions_failed) (simp_all add: MAX_ATTEMPTS_def)
  then have run: "submissions s evs = (spec_failure_trace MAX_ATTEMPTS evs, ?s0)"
    using assms(5) by (simp add: same)
  have "get_location now upd s = get_location now upd ?s0"
    using assms(1,2,3) by (rule get_location_init)
  then show ?thesis
    unfolding run by (simp add: spec_failure_trace_length spec_failure_trace_nth)
qed

theorem missing_counter_initialised_witness:
  "attempt_counts ana_registered 7 = None
   \<and> fst (submissions ana_registered [(1, far_update), (2, far_update), (3, far_update)]) ! 0
       = Inr ((RejectOutsideGeofence 2, ShareLocationKeyboard), Next GET_LOCATION)
   \<and> fst (submissions ana_registered [(1, far_update), (2, far_update), (3, far_update)]) ! 1
       = Inr ((RejectOutsideGeofence 1, ShareLocationKeyboard), Next GET_LOCATION)
   \<and> fst (submissions ana_registered [(1, far_update), (2, far_update), (3, far_update)]) ! 2
       = Inr ((ExhaustedOutsideGeofence, EmptyKeyboard), END)
   \<and> snd (submissions ana_registered [(1, far_update), (2, far_update), (3, far_update)])
       = ana_registered\<lparr>attempt_counts := [7 \<mapsto> 0]\<rparr>"
proof -
  let ?evs = "[(1::nat, far_update), (2, far_update), (3, far_update)]"
  have reg: "user_data ana_registered 7 \<noteq> None"
    by (simp add: ana_registered_def)
  have none: "attempt_counts ana_registered 7 = None"
    by (simp add: ana_registered_def)
  have all: "\<forall>e \<in> set ?evs. from_user_id (snd e) = 7 \<and> failed_submission (snd e)"
    by (simp add: user_of_updates failed_far_update)
  have len: "int (length ?evs) = MAX_ATTEMPTS"
    by (simp add: MAX_ATTEMPTS_def)
  note w = missing_counter_initialised [OF reg none user_of_updates(2) all len]
  have loc: "location far_update \<noteq> None"
    by (simp add: far_update_def update_of_def location_def)
  have "ana_registered\<lparr>attempt_counts := (attempt_counts ana_registered)(7 \<mapsto> 0)\<rparr>
      = ana_registered\<lparr>attempt_counts := [7 \<mapsto> 0]\<rparr>"
    by (simp add: ana_registered_def)
  then show ?thesis
    using w loc none
    by (simp add: spec_failure_outcome_def MAX_ATTEMPTS_def del: submissions.simps)
qed

section \<open>The stored username\<close>

text \<open>
  Claim C10. Once \<^verbatim>\<open>start\<close> has registered a user, no callback rewrites the entry:
  after any further calls the stored username is still the one of that first
  \<^verbatim>\<open>start\<close>, a later \<^verbatim>\<open>start\<close> of the same user changes nothing in the storage
  whatever username it carries, and the record that a successful submission appends
  bears the stored username, not the one of the submitting update.
\<close>

theorem username_of_first_start_recorded:
  assumes "user_data s0 uid = None" and "from_user_id u0 = uid"
    and "s = run_callbacks (snd (start u0 s0)) calls"
    and "from_user_id u1 = uid"
    and "from_user_id upd = uid" and "location upd = Some (lat, lon)"
    and "is_location_valid lat lon = Inr True"
  shows "user_data s uid = Some (UserInfo (from_username u0))
    \<and> start u1 s = (Inr ((Welcome, NoMarkup), Next CHECK_IN), s)
    \<and> attendance_records (snd (get_location now upd s)) =
        attendance_records s @
          [\<lparr>user_id = uid, username = from_username u0, timestamp = now,
            latitude = lat, longitude = lon\<rparr>]"
proof -
  have "user_data (snd (start u0 s0)) uid = Some (UserInfo (from_username u0))"
    using assms(1,2) by (simp add: start_def)
  then have stored: "user_data s uid = Some (UserInfo (from_username u0))"
    unfolding assms(3) by (rule run_callbacks_user_data)
  have again: "start u1 s = (Inr ((Welcome, NoMarkup), Next CHECK_IN), s)"
    using stored assms(4) by (simp add: start_def)
  have "get_location now upd s =
           (Inr ((ConfirmSuccess, EmptyKeyboard), END),
            s\<lparr>attendance_records := attendance_records s @
                 [\<lparr>user_id = uid, username = info_username (UserInfo (from_username u0)),
                   timestamp = now, latitude = lat, longitude = lon\<rparr>],
              attempt_counts := (attempt_counts s)(uid \<mapsto> 0)\<rparr>)"
    using stored assms(5,6,7) by (rule get_location_success)
  then show ?thesis
    using stored again by simp
qed

theorem username_of_first_start_recorded_witness:
  "from_username center_update = Some ''ana_maria''
   \<and> attendance_records
       (snd (get_location 9 center_update
          (run_callbacks (snd (start start_update initial_state))
             [(Start, 2, center_update), (Checkin, 3, checkin_update)]))) =
       attendance_records
          (run_callbacks (snd (start start_update initial_state))
             [(Start, 2, center_update), (Checkin, 3, checkin_update)])
        @ [\<lparr>user_id = 7, username = Some ''ana'', timestamp = 9,
            latitude = 19.523731621451685, longitude = - 99.2536655776822\<rparr>]"
proof -
  have new: "user_data initial_state 7 = None"
    by (simp add: initial_state_def)
  have loc: "location center_update = Some (19.523731621451685, - 99.2536655776822)"
    by (simp add: center_update_def update_of_def location_def)
  have name: "from_username start_update = Some ''ana''"
    "from_username center_update = Some ''ana_maria''"
    by (simp_all add: start_update_def center_update_def update_of_def)
  show ?thesis
    using username_of_first_start_recorded
      [OF new user_of_updates(5) refl user_of_updates(3) user_of_updates(3) loc center_inside,
       of "[(Start, 2, center_update), (Checkin, 3, checkin_update)]" 9]
      name
    by (simp del: run_callbacks.simps)
qed

section \<open>Cancelling\<close>

text \<open>
  Claim C7. In each state of the conversation handler, \<^verbatim>\<open>CHECK_IN\<close> or
  \<^verbatim>\<open>GET_LOCATION\<close>, the command \<^verbatim>\<open>/cancel\<close> is routed to \<^verbatim>\<open>cancel\<close>, which replies
  with the farewell message and ends the conversation; the storage is left as it was, so
  no record is appended and no attempt is counted.
\<close>

theorem cancel_ends_conversation:
  assumes "message upd = Command ''cancel''"
    and "conversations app (chat_id upd, from_user_id upd) = Some ph"
  shows "process_update now upd app =
           (Some (Inr (Farewell, NoMarkup)),
            app\<lparr>conversations := (conversations app)((chat_id upd, from_user_id upd) := None)\<rparr>)
    \<and> cancel upd (storage app) = (Inr ((Farewell, NoMarkup), END), storage app)"
proof -
  have "select_handler (Some ph) upd = Some Cancel"
    using assms(1)
    by (cases ph)
      (simp_all add: select_handler_def fallbacks_def location_def)
  then show ?thesis
    using assms(2) by (simp add: process_update_def cancel_def)
qed

theorem cancel_ends_conversation_witness:
  "process_update 4 cancel_update
     \<lparr>conversations = [(7, 7) \<mapsto> GET_LOCATION],
      storage = ana_registered\<lparr>attempt_counts := [7 \<mapsto> 2]\<rparr>\<rparr> =
     (Some (Inr (Farewell, NoMarkup)),
      \<lparr>conversations = Map.empty,
       storage = ana_registered\<lparr>attempt_counts := [7 \<mapsto> 2]\<rparr>\<rparr>)"
proof -
  let ?app = "\<lparr>conversations = [(7, 7) \<mapsto> GET_LOCATION],
      storage = ana_registered\<lparr>attempt_counts := [7 \<mapsto> 2]\<rparr>\<rparr>"
  have m: "message cancel_update = Command ''cancel''"
    by (simp add: cancel_update_def update_of_def)
  have k: "chat_id cancel_update = 7" "from_user_id cancel_update = 7"
    by (simp_all add: cancel_update_def update_of_def)
  have c: "conversations ?app (chat_id cancel_update, from_user_id cancel_update)
      = Some GET_LOCATION"
    by (simp add: k)
  show ?thesis
    using cancel_ends_conversation [OF m c, of 4] by (simp add: k)
qed

section \<open>Coordinates out of range\<close>

text \<open>
  Claim C5 asks that a report with \<open>|lat| > 90\<close> or \<open>|lon| > 180\<close> be rejected with an
  error and counted as a failed attempt. The report \<open>(19.523731621451685,
  260.7463344223178)\<close>, the center's longitude plus 360 degrees, is out of range; the
  geofence test accepts it and \<^verbatim>\<open>get_location\<close> records the attendance.
\<close>

theorem out_of_range_accepted:
  "out_of_range 19.523731621451685 260.7463344223178
   \<and> is_location_valid 19.523731621451685 260.7463344223178 = Inr True
   \<and> get_location 5 shifted_update ana_registered =
       (Inr ((ConfirmSuccess, EmptyKeyboard), END),
        ana_registered
          \<lparr>attendance_records :=
             [\<lparr>user_id = 7, username = Some ''ana'', timestamp = 5,
               latitude = 19.523731621451685, longitude = 260.7463344223178\<rparr>],
           attempt_counts := [7 \<mapsto> 0]\<rparr>)"
proof -
  have reg: "user_data ana_registered 7 = Some (UserInfo (Some ''ana''))"
    by (simp add: ana_registered_def)
  have loc: "location shifted_update = Some (19.523731621451685, 260.7463344223178)"
    by (simp add: shifted_update_def update_of_def location_def)
  have "get_location 5 shifted_update ana_registered =
       (Inr ((ConfirmSuccess, EmptyKeyboard), END),
        ana_registered
          \<lparr>attendance_records := attendance_records ana_registered @
             [\<lparr>user_id = 7, username = info_username (UserInfo (Some ''ana'')), timestamp = 5,
               latitude = 19.523731621451685, longitude = 260.7463344223178\<rparr>],
           attempt_counts := (attempt_counts ana_registered)(7 \<mapsto> 0)\<rparr>)"
    using reg user_of_updates(6) loc shifted_inside by (rule get_location_success)
  then show ?thesis
    using shifted_inside by (simp add: out_of_range_def ana_registered_def)
qed

text \<open>
  Claim C5, amended. The geofence test has no range check and no error for a coordinate
  out of range: such a report is put to the same haversine test as any other, and
  \<^verbatim>\<open>get_location\<close> follows the answer. From a registered user, a report out of range
  that the test answers with \<^verbatim>\<open>True\<close> is accepted and recorded, and one that it
  answers with \<^verbatim>\<open>False\<close> is counted as one failed attempt through the outside-area
  branch, a missing counter counting from 0. What follows when \<^verbatim>\<open>math.sqrt\<close> raises
  is left open.
\<close>

theorem out_of_range_follows_validator:
  assumes "out_of_range lat lon"
    and "user_data s uid = Some info"
    and "from_user_id upd = uid" and "location upd = Some (lat, lon)"
  shows "(is_location_valid lat lon = Inr True \<longrightarrow>
          get_location now upd s =
            (Inr ((ConfirmSuccess, EmptyKeyboard), END),
             s\<lparr>attendance_records := attendance_records s @
                  [\<lparr>user_id = uid, username = info_username info, timestamp = now,
                    latitude = lat, longitude = lon\<rparr>],
               attempt_counts := (attempt_counts s)(uid \<mapsto> 0)\<rparr>))
    \<and> (is_location_valid lat lon = Inr False \<longrightarrow>
          get_location now upd s =
            (spec_failure_outcome upd
               (MAX_ATTEMPTS - ((case attempt_counts s uid of None \<Rightarrow> 0 | Some n \<Rightarrow> n) + 1)),
             s\<lparr>attempt_counts := (attempt_counts s)
                  (uid \<mapsto>
                     if MAX_ATTEMPTS
                          - ((case attempt_counts s uid of None \<Rightarrow> 0 | Some n \<Rightarrow> n) + 1) > 0
                     then (case attempt_counts s uid of None \<Rightarrow> 0 | Some n \<Rightarrow> n) + 1
                     else 0)\<rparr>))"
proof -
  have inside: "get_location now upd s =
            (Inr ((ConfirmSuccess, EmptyKeyboard), END),
             s\<lparr>attendance_records := attendance_records s @
                  [\<lparr>user_id = uid, username = info_username info, timestamp = now,
                    latitude = lat, longitude = lon\<rparr>],
               attempt_counts := (attempt_counts s)(uid \<mapsto> 0)\<rparr>)"
    if "is_location_valid lat lon = Inr True"
    using assms(2,3,4) that by (rule get_location_success)
  have outside: "get_location now upd s =
            (spec_failure_outcome upd
               (MAX_ATTEMPTS - ((case attempt_counts s uid of None \<Rightarrow> 0 | Some n \<Rightarrow> n) + 1)),
             s\<lparr>attempt_counts := (attempt_counts s)
                  (uid \<mapsto>
                     if MAX_ATTEMPTS
                          - ((case attempt_counts s uid of None \<Rightarrow> 0 | Some n \<Rightarrow> n) + 1) > 0
                     then (case attempt_counts s uid of None \<Rightarrow> 0 | Some n \<Rightarrow> n) + 1
                     else 0)\<rparr>)"
    if no: "is_location_valid lat lon = Inr False"
  proof -
    have failed: "failed_submission upd"
      using assms(4) no by (simp add: failed_submission_def)
    show ?thesis
    proof (cases "attempt_counts s uid")
      case (Some n)
      then show ?thesis
        using get_location_failed [OF assms(2,3) failed Some, of now] by simp
    next
      case None
      let ?s0 = "s\<lparr>attempt_counts := (attempt_counts s)(uid \<mapsto> 0)\<rparr>"
      have reg: "user_data s uid \<noteq> None" using assms(2) by simp
      have "get_location now upd s = get_location now upd ?s0"
        using reg None assms(3) by (rule get_location_init)
      moreover have "get_location now upd ?s0 =
           (spec_failure_outcome upd (MAX_ATTEMPTS - (0 + 1)),
            ?s0\<lparr>attempt_counts := (attempt_counts ?s0)
                 (uid \<mapsto> if MAX_ATTEMPTS - (0 + 1) > 0 then 0 + 1 else 0)\<rparr>)"
        using assms(2,3) failed by (intro get_location_failed) simp_all
      ultimately show ?thesis
        using None by simp
    qed
  qed
  show ?thesis
    using inside outside by blast
qed

text \<open>
  The center's latitude plus 180 degrees, from a user without a counter: out of range,
  answered with \<^verbatim>\<open>False\<close>, and counted as the first of three attempts.
\<close>

theorem out_of_range_follows_validator_witness:
  "out_of_range 199.523731621451685 (- 99.2536655776822)
   \<and> is_location_valid 199.523731621451685 (- 99.2536655776822) = Inr False
   \<and> get_location 5 far_update ana_registered =
       (Inr ((RejectOutsideGeofence 2, ShareLocationKeyboard), Next GET_LOCATION),
        ana_registered\<lparr>attempt_counts := [7 \<mapsto> 1]\<rparr>)"
proof -
  have oor: "out_of_range 199.523731621451685 (- 99.2536655776822)"
    by (simp add: out_of_range_def)
  have reg: "user_data ana_registered 7 = Some (UserInfo (Some ''ana''))"
    by (simp add: ana_registered_def)
  have cnt: "attempt_counts ana_registered 7 = None"
    by (simp add: ana_registered_def)
  have loc: "location far_update = Some (199.523731621451685, - 99.2536655776822)"
    by (simp add: far_update_def update_of_def location_def)
  have out: "spec_failure_outcome far_update (MAX_ATTEMPTS - (0 + 1)) =
      Inr ((RejectOutsideGeofence 2, ShareLocationKeyboard), Next GET_LOCATION)"
    using loc by (simp add: spec_failure_outcome_def MAX_ATTEMPTS_def)
  have st: "ana_registered\<lparr>attempt_counts := (attempt_counts ana_registered)(7 \<mapsto> 1)\<rparr>
      = ana_registered\<lparr>attempt_counts := [7 \<mapsto> 1]\<rparr>"
    by (simp add: ana_registered_def)
  have "get_location 5 far_update ana_registered =
       (Inr ((RejectOutsideGeofence 2, ShareLocationKeyboard), Next GET_LOCATION),
        ana_registered\<lparr>attempt_counts := [7 \<mapsto> 1]\<rparr>)"
    using out_of_range_follows_validator [OF oor reg user_of_updates(2) loc, of 5]
      far_outside out st cnt
    by (simp add: MAX_ATTEMPTS_def)
  then show ?thesis
    using oor far_outside by simp
qed

section \<open>An event from a user without a conversation\<close>



end
